theory Spec2Isabelle
  imports Complex_Main "HOL-Library.AList" "HOL-Library.Log_Nat"
begin

section \<open>Values\<close>

text \<open>
  The financial ratios of a snapshot are Python values of type \<open>float | None\<close>. A float is
  modelled by the number it denotes, an exact rational, or by one of the three special
  values; the two zeros are one value. A decimal literal of the source such as \<open>0.15\<close>
  denotes the rational \<open>15/100\<close>. The float operations of the aggregator round their
  result to a double, see \<open>round_double\<close> below.
\<close>

datatype pyfloat = Fin rat | PosInf | NegInf | NaN

text \<open>Truth value of a float in a condition (\<open>if x:\<close>): only zero is false.\<close>

fun truthy :: "pyfloat \<Rightarrow> bool" where
  "truthy (Fin q) = (q \<noteq> 0)"
| "truthy PosInf = True"
| "truthy NegInf = True"
| "truthy NaN = True"

text \<open>The comparisons \<open>x > c\<close> and \<open>x < c\<close> against a finite constant; both are false on NaN.\<close>

fun gt :: "pyfloat \<Rightarrow> rat \<Rightarrow> bool" where
  "gt (Fin q) c = (c < q)"
| "gt PosInf c = True"
| "gt NegInf c = False"
| "gt NaN c = False"

fun lt :: "pyfloat \<Rightarrow> rat \<Rightarrow> bool" where
  "lt (Fin q) c = (q < c)"
| "lt PosInf c = False"
| "lt NegInf c = True"
| "lt NaN c = False"

text \<open>
  The condition \<open>if field:\<close> on an optional float: \<open>None\<close> and zero are false, every
  other value is true.
\<close>

definition present :: "pyfloat option \<Rightarrow> bool" where
  "present field = (case field of None \<Rightarrow> False | Some x \<Rightarrow> truthy x)"

subsection \<open>Float arithmetic\<close>

text \<open>
  A double (IEEE 754 binary64) has a significand of 53 bits; its finite values are the
  multiples \<open>m * 2^(e - 52)\<close> with \<open>|m| < 2^53\<close> and \<open>-1022 \<le> e \<le> 1023\<close>. \<open>pow2 e\<close> is
  \<open>2^e\<close> for an integer exponent, \<open>ilog2 a\<close> the exponent \<open>e\<close> with \<open>2^e \<le> a < 2^(e+1)\<close>
  of a positive rational.
\<close>

definition pow2 :: "int \<Rightarrow> rat" where
  "pow2 e = (if 0 \<le> e then 2 ^ nat e else 1 / 2 ^ nat (- e))"

definition ilog2 :: "rat \<Rightarrow> int" where
  "ilog2 a =
     (let k = bitlen (fst (quotient_of a)) - bitlen (snd (quotient_of a))
      in if pow2 k \<le> a then k else k - 1)"

text \<open>The nearest integer, a tie going to the even one.\<close>

definition round_half_even :: "rat \<Rightarrow> int" where
  "round_half_even y =
     (let f = \<lfloor>y\<rfloor>; r = y - of_int f
      in if r < 1 / 2 then f else if 1 / 2 < r then f + 1 else if even f then f else f + 1)"

text \<open>
  The double nearest to a rational (round to nearest, ties to even): the spacing of the
  doubles around \<open>x\<close> is \<open>2^(e - 52)\<close>, with \<open>e\<close> not below -1022 (subnormal range), and
  \<open>x\<close> is rounded to the multiple \<open>m * 2^(e - 52)\<close>. That multiple reaches \<open>2^1024\<close>, an
  overflow, when \<open>e\<close> exceeds 1023 or when \<open>e\<close> is 1023 and \<open>m\<close> is rounded up to \<open>2^53\<close>.
\<close>

definition round_double :: "rat \<Rightarrow> pyfloat" where
  "round_double x =
     (if x = 0 then Fin 0
      else
        (let a = \<bar>x\<bar>;
             e = max (ilog2 a) (- 1022);
             quantum = pow2 (e - 52);
             m = round_half_even (a / quantum)
         in if 1023 < e \<or> (e = 1023 \<and> m = 2 ^ 53) then (if 0 < x then PosInf else NegInf)
            else Fin (if 0 < x then of_int m * quantum else - (of_int m * quantum))))"

text \<open>
  \<open>a / b\<close> on two Python integers: \<open>ZeroDivisionError\<close> on a zero divisor, otherwise the
  correctly rounded ratio, and \<open>OverflowError\<close> when that is too large for a float.
\<close>

datatype arith_error = ZeroDivisionError | OverflowError

definition int_truediv :: "int \<Rightarrow> int \<Rightarrow> arith_error + pyfloat" where
  "int_truediv a b =
     (if b = 0 then Inl ZeroDivisionError
      else
        (case round_double (of_int a / of_int b) of
           Fin q \<Rightarrow> Inr (Fin q)
         | _ \<Rightarrow> Inl OverflowError))"

text \<open>
  \<open>x * y\<close> on two floats (an integer operand such as \<open>100\<close> is converted first, exactly):
  the rounded product of finite values; it raises nothing and overflows to an infinity.
\<close>

fun positive :: "pyfloat \<Rightarrow> bool" where
  "positive (Fin q) = (0 < q)"
| "positive PosInf = True"
| "positive NegInf = False"
| "positive NaN = False"

definition float_mul :: "pyfloat \<Rightarrow> pyfloat \<Rightarrow> pyfloat" where
  "float_mul x y =
     (case (x, y) of
        (Fin a, Fin b) \<Rightarrow> round_double (a * b)
      | _ \<Rightarrow>
          if x = NaN \<or> y = NaN \<or> x = Fin 0 \<or> y = Fin 0 then NaN
          else if positive x = positive y then PosInf
          else NegInf)"

section \<open>Data model of \<open>src/agents/example_agent.py\<close>\<close>

text \<open>
  The fields of a metrics snapshot that the rubric reads (attributes of the objects in
  \<open>metrics\<close>).
\<close>

record snapshot =
  return_on_equity :: "pyfloat option"
  debt_to_equity :: "pyfloat option"
  revenue_growth :: "pyfloat option"
  earnings_growth :: "pyfloat option"

text \<open>
  The explanation texts stored in the \<open>reasoning\<close> dictionaries are Korean string literals;
  each literal of the source is one constructor, named after its meaning, in the order of
  the source (lines 127, 130, 133, 135; 142, 145, 147; 172, 175, 178, 180; 187, 190, 192).
\<close>

datatype reason =
    ROE_excellent | ROE_good | ROE_moderate | ROE_low
  | Debt_conservative | Debt_adequate | Debt_high
  | Revenue_growth_high | Revenue_growth_good | Revenue_growth_moderate | Revenue_growth_low
  | Earnings_growth_high | Earnings_growth_good | Earnings_growth_moderate

text \<open>
  The dictionary \<open>{"score": .., "max_score": .., "reasoning": {..}}\<close> returned by both
  scorers. The inner dictionary is an association list in insertion order;
  \<open>reasoning[k] = v\<close> is \<^const>\<open>AList.update\<close>.
\<close>

record breakdown =
  score :: int
  max_score :: int
  reasoning :: "(string \<times> reason) list"

definition empty_breakdown :: breakdown where
  "empty_breakdown = \<lparr>score = 0, max_score = 0, reasoning = []\<rparr>"

datatype signal = bullish | bearish | neutral

text \<open>
  The four f-string templates of \<open>generate_signal\<close> (lines 218, 222, 226, 230). Each one
  embeds the score formatted by \<open>:.1f\<close>; the formatting of a float is the language's, and
  is a parameter \<open>fmt\<close> of the model.
\<close>

datatype verdict = Very_strong | Good | Neutral_candidate | Caution

section \<open>CoreRubricScorer: \<open>analyze_core_metrics\<close>\<close>

text \<open>
  The two \<open>if\<close> blocks of the function body update the local variables \<open>score\<close>,
  \<open>max_score\<close> and \<open>reasoning\<close> one after the other; each block is a function on the
  breakdown built so far. Lines 124-136.
\<close>

definition roe_analysis :: "pyfloat option \<Rightarrow> breakdown \<Rightarrow> breakdown" where
  "roe_analysis field b =
     (case field of
        None \<Rightarrow> b
      | Some x \<Rightarrow>
          if \<not> truthy x then b
          else
            (let b' =
               (if gt x 0.15 then
                  b\<lparr>score := score b + 3,
                    reasoning := AList.update ''roe'' ROE_excellent (reasoning b)\<rparr>
                else if gt x 0.10 then
                  b\<lparr>score := score b + 2,
                    reasoning := AList.update ''roe'' ROE_good (reasoning b)\<rparr>
                else if gt x 0.05 then
                  b\<lparr>score := score b + 1,
                    reasoning := AList.update ''roe'' ROE_moderate (reasoning b)\<rparr>
                else
                  b\<lparr>reasoning := AList.update ''roe'' ROE_low (reasoning b)\<rparr>)
             in b'\<lparr>max_score := max_score b' + 3\<rparr>))"

text \<open>Lines 139-148.\<close>

definition debt_analysis :: "pyfloat option \<Rightarrow> breakdown \<Rightarrow> breakdown" where
  "debt_analysis field b =
     (case field of
        None \<Rightarrow> b
      | Some x \<Rightarrow>
          if \<not> truthy x then b
          else
            (let b' =
               (if lt x 0.3 then
                  b\<lparr>score := score b + 2,
                    reasoning := AList.update ''debt'' Debt_conservative (reasoning b)\<rparr>
                else if lt x 0.5 then
                  b\<lparr>score := score b + 1,
                    reasoning := AList.update ''debt'' Debt_adequate (reasoning b)\<rparr>
                else
                  b\<lparr>reasoning := AList.update ''debt'' Debt_high (reasoning b)\<rparr>)
             in b'\<lparr>max_score := max_score b' + 2\<rparr>))"

text \<open>
  \<open>metrics\<close> is a list of snapshots or \<open>None\<close>; \<open>if metrics and len(metrics) > 0\<close> is false
  on \<open>None\<close> and on the empty list. \<open>line_items\<close> is a parameter the body never reads.
\<close>

definition analyze_core_metrics :: "snapshot list option \<Rightarrow> 'li \<Rightarrow> breakdown" where
  "analyze_core_metrics metrics line_items =
     (case metrics of
        None \<Rightarrow> empty_breakdown
      | Some [] \<Rightarrow> empty_breakdown
      | Some (latest # _) \<Rightarrow>
          debt_analysis (debt_to_equity latest)
            (roe_analysis (return_on_equity latest) empty_breakdown))"

section \<open>AdvancedRubricScorer: \<open>perform_advanced_analysis\<close>\<close>

text \<open>Lines 169-181.\<close>

definition revenue_growth_analysis :: "pyfloat option \<Rightarrow> breakdown \<Rightarrow> breakdown" where
  "revenue_growth_analysis field b =
     (case field of
        None \<Rightarrow> b
      | Some x \<Rightarrow>
          if \<not> truthy x then b
          else
            (let b' =
               (if gt x 0.20 then
                  b\<lparr>score := score b + 3,
                    reasoning := AList.update ''revenue_growth'' Revenue_growth_high (reasoning b)\<rparr>
                else if gt x 0.10 then
                  b\<lparr>score := score b + 2,
                    reasoning := AList.update ''revenue_growth'' Revenue_growth_good (reasoning b)\<rparr>
                else if gt x 0.05 then
                  b\<lparr>score := score b + 1,
                    reasoning :=
                      AList.update ''revenue_growth'' Revenue_growth_moderate (reasoning b)\<rparr>
                else
                  b\<lparr>reasoning := AList.update ''revenue_growth'' Revenue_growth_low (reasoning b)\<rparr>)
             in b'\<lparr>max_score := max_score b' + 3\<rparr>))"

text \<open>Lines 184-193.\<close>

definition earnings_growth_analysis :: "pyfloat option \<Rightarrow> breakdown \<Rightarrow> breakdown" where
  "earnings_growth_analysis field b =
     (case field of
        None \<Rightarrow> b
      | Some x \<Rightarrow>
          if \<not> truthy x then b
          else
            (let b' =
               (if gt x 0.25 then
                  b\<lparr>score := score b + 2,
                    reasoning :=
                      AList.update ''earnings_growth'' Earnings_growth_high (reasoning b)\<rparr>
                else if gt x 0.15 then
                  b\<lparr>score := score b + 1,
                    reasoning :=
                      AList.update ''earnings_growth'' Earnings_growth_good (reasoning b)\<rparr>
                else
                  b\<lparr>reasoning :=
                      AList.update ''earnings_growth'' Earnings_growth_moderate (reasoning b)\<rparr>)
             in b'\<lparr>max_score := max_score b' + 2\<rparr>))"

text \<open>
  \<open>if metrics and len(metrics) > 1\<close>: the body runs on a list of two or more snapshots.
  \<open>previous = metrics[1]\<close> is bound and not used afterwards.
\<close>

definition perform_advanced_analysis :: "snapshot list option \<Rightarrow> 'li \<Rightarrow> breakdown" where
  "perform_advanced_analysis metrics line_items =
     (case metrics of
        None \<Rightarrow> empty_breakdown
      | Some [] \<Rightarrow> empty_breakdown
      | Some [_] \<Rightarrow> empty_breakdown
      | Some (current # previous # _) \<Rightarrow>
          earnings_growth_analysis (earnings_growth current)
            (revenue_growth_analysis (revenue_growth current) empty_breakdown))"

section \<open>ComprehensiveAggregator: \<open>calculate_comprehensive_score\<close>\<close>

text \<open>
  Lines 202-210. The scores are Python integers; \<open>total_score / max_possible_score\<close> is
  true division of integers and gives a float, which is then multiplied by \<open>100\<close>. The
  guard returns the integer \<open>0\<close> (here \<open>Fin 0\<close>) before the division when the divisor is
  zero.
\<close>

definition calculate_comprehensive_score :: "breakdown \<Rightarrow> breakdown \<Rightarrow> arith_error + pyfloat"
  where
  "calculate_comprehensive_score core_analysis advanced_analysis =
     (let total_score = score core_analysis + score advanced_analysis;
          max_possible_score = max_score core_analysis + max_score advanced_analysis
      in if max_possible_score = 0 then Inr (Fin 0)
         else
           (case int_truediv total_score max_possible_score of
              Inl e \<Rightarrow> Inl e
            | Inr ratio \<Rightarrow> Inr (float_mul ratio (Fin 100))))"

text \<open>
  The float expression \<open>(t / m) * 100\<close> on two integers is within \<open>2^-46\<close> of the exact
  percentage and between 0 and 100.
\<close>

definition percentage_close :: "int \<Rightarrow> int \<Rightarrow> bool" where
  "percentage_close t m =
     (case int_truediv t m of
        Inl e \<Rightarrow> False
      | Inr ratio \<Rightarrow>
          (case float_mul ratio (Fin 100) of
             Fin r \<Rightarrow> 0 \<le> r \<and> r \<le> 100 \<and> \<bar>r - 100 * of_int t / of_int m\<bar> \<le> 1 / 2 ^ 46
           | _ \<Rightarrow> False))"

section \<open>SignalClassifier: \<open>generate_signal\<close>\<close>

text \<open>
  Returns the triple \<open>(signal, confidence, reasoning)\<close>; the reasoning text is the template
  that was chosen together with the formatted score.
\<close>

definition generate_signal ::
  "(rat \<Rightarrow> string) \<Rightarrow> rat \<Rightarrow> 'cap \<Rightarrow> signal \<times> rat \<times> (verdict \<times> string)" where
  "generate_signal fmt comprehensive_score market_cap =
     (if comprehensive_score \<ge> 80 then
        (bullish, comprehensive_score, (Very_strong, fmt comprehensive_score))
      else if comprehensive_score \<ge> 60 then
        (bullish, comprehensive_score, (Good, fmt comprehensive_score))
      else if comprehensive_score \<ge> 40 then
        (neutral, 50, (Neutral_candidate, fmt comprehensive_score))
      else
        (bearish, 100 - comprehensive_score, (Caution, fmt comprehensive_score)))"

section \<open>ValidationReviewer: \<open>validate_with_llm\<close>\<close>

text \<open>
  What a call can raise. \<open>except Exception\<close> catches the instances of \<open>Exception\<close>
  (\<open>Err\<close>, with the message); the exceptions outside that class (\<open>KeyboardInterrupt\<close>,
  \<open>SystemExit\<close>, a task cancellation) are \<open>NonErr\<close> and pass through the handler.
\<close>

datatype raised = Err string | NonErr string

text \<open>
  The functions the body calls belong to libraries and to modules outside this file; they
  are parameters. \<open>from_messages\<close> is the outcome of building the prompt template from the
  two constant messages (line 237, before the \<open>try\<close>): the template or what the
  construction raises. \<open>call_llm\<close> receives the template, the value of the template
  variable \<open>analysis_data\<close>, the state and the agent id, and returns the response text.
\<close>

record ('p, 'v, 'st) collaborators =
  from_messages :: "raised + 'p"
  json_dumps :: "'v \<Rightarrow> raised + string"
  call_llm :: "'p \<Rightarrow> string \<Rightarrow> 'st \<Rightarrow> string \<Rightarrow> raised + string"
  json_loads :: "string \<Rightarrow> raised + 'v"

text \<open>
  Lines 235-274. The prompt is built first, outside the \<open>try\<close>: what that raises reaches
  the caller. Inside the \<open>try\<close> (lines 260-270) the arguments of \<open>call_llm\<close> are evaluated,
  then the call is made, then \<open>json.loads\<close>; the first exception leaves the block and the
  handler of line 272 returns \<open>signals\<close> for an instance of \<open>Exception\<close>. The parsed value
  is returned as it is.
\<close>

definition validate_with_llm ::
  "('p, 'v, 'st) collaborators \<Rightarrow> 'v \<Rightarrow> 'st \<Rightarrow> string \<Rightarrow> raised + 'v" where
  "validate_with_llm ext signals state agent_id =
     (case from_messages ext of
        Inl e \<Rightarrow> Inl e
      | Inr prompt \<Rightarrow>
          (let body =
             (case json_dumps ext signals of
                Inl e \<Rightarrow> Inl e
              | Inr analysis_data \<Rightarrow>
                  (case call_llm ext prompt analysis_data state agent_id of
                     Inl e \<Rightarrow> Inl e
                   | Inr result \<Rightarrow> json_loads ext result))
           in case body of
                Inr parsed_result \<Rightarrow> Inr parsed_result
              | Inl (Err e) \<Rightarrow> Inr signals
              | Inl (NonErr e) \<Rightarrow> Inl (NonErr e)))"

text \<open>The values \<open>json.loads\<close> produces.\<close>

datatype json =
    JNull | JBool bool | JNum rat | JStr string
  | JArr "json list" | JObj "(string \<times> json) list"

text \<open>
  The shape the prompt asks for (lines 250-256) and the class \<open>ExampleAgentSignal\<close>
  declares (lines 22-25): an object with the keys \<open>signal\<close>, \<open>confidence\<close> and \<open>reasoning\<close>,
  a signal among the three literals, a number and a text; one such object per ticker.
\<close>

fun ExampleAgentSignal :: "json \<Rightarrow> bool" where
  "ExampleAgentSignal (JObj members) =
     (distinct (map fst members)
      \<and> set (map fst members) = {''signal'', ''confidence'', ''reasoning''}
      \<and> (case map_of members ''signal'' of
            Some (JStr s) \<Rightarrow> s = ''bullish'' \<or> s = ''bearish'' \<or> s = ''neutral''
          | _ \<Rightarrow> False)
      \<and> (case map_of members ''confidence'' of Some (JNum c) \<Rightarrow> True | _ \<Rightarrow> False)
      \<and> (case map_of members ''reasoning'' of Some (JStr r) \<Rightarrow> True | _ \<Rightarrow> False))"
| "ExampleAgentSignal _ = False"

fun expected_shape :: "json \<Rightarrow> bool" where
  "expected_shape (JObj tickers) = list_all (\<lambda>entry. ExampleAgentSignal (snd entry)) tickers"
| "expected_shape _ = False"

text \<open>
  Collaborators for concrete runs: the prompt is built, serialisation succeeds, the model
  answers \<open>text\<close>, and \<open>json.loads\<close> returns \<open>parsed\<close> for that text.
\<close>

definition reviewer_answering ::
  "string \<Rightarrow> raised + json \<Rightarrow> (unit, json, unit) collaborators" where
  "reviewer_answering text parsed =
     \<lparr>from_messages = Inr (),
      json_dumps = (\<lambda>_. Inr ''{}''),
      call_llm = (\<lambda>_ _ _ _. Inr text),
      json_loads = (\<lambda>t. if t = text then parsed else Inl (Err ''JSONDecodeError''))\<rparr>"

text \<open>Collaborators whose model call raises.\<close>

definition reviewer_raising :: "raised \<Rightarrow> (unit, json, unit) collaborators" where
  "reviewer_raising e =
     \<lparr>from_messages = Inr (),
      json_dumps = (\<lambda>_. Inr ''{}''),
      call_llm = (\<lambda>_ _ _ _. Inl e),
      json_loads = (\<lambda>_. Inl (Err ''JSONDecodeError''))\<rparr>"

text \<open>
  The deterministic signals of one ticker, as the dictionary built in lines 80-89, with a
  short text in place of the reasoning sentence.
\<close>

definition signals_AAPL :: json where
  "signals_AAPL =
     JObj [(''AAPL'',
       JObj [(''signal'', JStr ''bullish''), (''confidence'', JNum 100),
             (''reasoning'', JStr ''score 100.0''),
             (''analysis_details'',
               JObj [(''core_score'', JNum 5), (''advanced_score'', JNum 0),
                     (''comprehensive_score'', JNum 100)])])]"

section \<open>ModelCatalogFilter: \<open>get_language_models\<close> in \<open>app/backend/routes/language_models.py\<close>\<close>

text \<open>Lines 17-27; \<open>PROVIDER_TO_API_KEY.get(p)\<close> is \<open>map_of PROVIDER_TO_API_KEY p\<close>.\<close>

definition PROVIDER_TO_API_KEY :: "(string \<times> string) list" where
  "PROVIDER_TO_API_KEY =
     [(''OpenAI'', ''OPENAI_API_KEY''),
      (''Anthropic'', ''ANTHROPIC_API_KEY''),
      (''Google'', ''GOOGLE_API_KEY''),
      (''Groq'', ''GROQ_API_KEY''),
      (''xAI'', ''XAI_API_KEY''),
      (''DeepSeek'', ''DEEPSEEK_API_KEY''),
      (''GigaChat'', ''GIGACHAT_API_KEY''),
      (''OpenRouter'', ''OPENROUTER_API_KEY''),
      (''Azure OpenAI'', ''AZURE_OPENAI_API_KEY'')]"

text \<open>
  A stored credential (only the attribute the route reads) and a model descriptor, a
  dictionary with text values.
\<close>

record api_key =
  provider :: string

type_synonym model = "(string \<times> string) list"

text \<open>\<open>model.get("provider", "")\<close>\<close>

definition model_provider :: "model \<Rightarrow> string" where
  "model_provider model = (case map_of model ''provider'' of None \<Rightarrow> [] | Some p \<Rightarrow> p)"

text \<open>
  The loop of lines 56-64 with its accumulator \<open>filtered_models\<close>. The condition
  \<open>api_key_name and api_key_name in available_providers\<close> is false when the lookup gave
  \<open>None\<close> or the empty string.
\<close>

fun filter_cloud_models :: "string set \<Rightarrow> model list \<Rightarrow> model list \<Rightarrow> model list" where
  "filter_cloud_models available_providers [] filtered_models = filtered_models"
| "filter_cloud_models available_providers (model # all_models) filtered_models =
     (let api_key_name = map_of PROVIDER_TO_API_KEY (model_provider model)
      in case api_key_name of
           None \<Rightarrow> filter_cloud_models available_providers all_models filtered_models
         | Some name \<Rightarrow>
             if name \<noteq> [] \<and> name \<in> available_providers
             then filter_cloud_models available_providers all_models (filtered_models @ [model])
             else filter_cloud_models available_providers all_models filtered_models)"

text \<open>
  The handler fails with status 500 and a detail text when a step raises an \<open>Exception\<close>;
  anything else that is raised passes through.
\<close>

datatype failure = HTTPException nat string | Passed raised

definition on_exception :: "raised \<Rightarrow> failure" where
  "on_exception e =
     (case e of
        Err msg \<Rightarrow> HTTPException 500 (''Failed to retrieve models: '' @ msg)
      | NonErr msg \<Rightarrow> Passed (NonErr msg))"

text \<open>
  Lines 41-76. The three arguments are the outcomes of the calls to the credential store
  (\<open>get_all_api_keys\<close>), to the static catalog (\<open>get_models_list\<close>) and to the probe of local
  models (\<open>get_available_models\<close>), in the order the body makes them. The result is the list
  under the key \<open>models\<close> of the response. Logging is not modelled.
\<close>

definition get_language_models ::
  "raised + api_key list \<Rightarrow> raised + model list \<Rightarrow> raised + model list \<Rightarrow> failure + model list"
  where
  "get_language_models get_all_api_keys get_models_list get_available_models =
     (case get_all_api_keys of
        Inl e \<Rightarrow> Inl (on_exception e)
      | Inr api_keys \<Rightarrow>
          (let available_providers = set (map provider api_keys) in
           case get_models_list of
             Inl e \<Rightarrow> Inl (on_exception e)
           | Inr all_models \<Rightarrow>
               (let filtered_models = filter_cloud_models available_providers all_models [] in
                case get_available_models of
                  Inl e \<Rightarrow> Inl (on_exception e)
                | Inr ollama_models \<Rightarrow> Inr (filtered_models @ ollama_models))))"

text \<open>
  The criterion of the specification for a catalog entry: its provider has a row in the
  table, and the credential named in that row is among the available ones.
\<close>

definition has_credential :: "string set \<Rightarrow> model \<Rightarrow> bool" where
  "has_credential available_providers model =
     (case map_of PROVIDER_TO_API_KEY (model_provider model) of
        None \<Rightarrow> False
      | Some name \<Rightarrow> name \<in> available_providers)"

section \<open>The invariant of a breakdown\<close>

text \<open>The achieved score lies between zero and the achievable maximum.\<close>

definition score_in_range :: "breakdown \<Rightarrow> bool" where
  "score_in_range b = (0 \<le> score b \<and> score b \<le> max_score b)"

section \<open>Properties of the rubric blocks\<close>

lemma roe_analysis_skip: "\<not> present v \<Longrightarrow> roe_analysis v b = b"
  by (cases v) (simp_all add: present_def roe_analysis_def)

lemma debt_analysis_skip: "\<not> present v \<Longrightarrow> debt_analysis v b = b"
  by (cases v) (simp_all add: present_def debt_analysis_def)

lemma revenue_growth_analysis_skip: "\<not> present v \<Longrightarrow> revenue_growth_analysis v b = b"
  by (cases v) (simp_all add: present_def revenue_growth_analysis_def)

lemma earnings_growth_analysis_skip: "\<not> present v \<Longrightarrow> earnings_growth_analysis v b = b"
  by (cases v) (simp_all add: present_def earnings_growth_analysis_def)

lemma roe_analysis_present:
  assumes "present v"
  shows "max_score (roe_analysis v b) = max_score b + 3"
    and "score b \<le> score (roe_analysis v b)"
    and "score (roe_analysis v b) \<le> score b + 3"
    and "\<exists>r. reasoning (roe_analysis v b) = AList.update ''roe'' r (reasoning b)"
  using assms by (cases v; auto simp add: present_def roe_analysis_def Let_def)+

lemma debt_analysis_present:
  assumes "present v"
  shows "max_score (debt_analysis v b) = max_score b + 2"
    and "score b \<le> score (debt_analysis v b)"
    and "score (debt_analysis v b) \<le> score b + 2"
    and "\<exists>r. reasoning (debt_analysis v b) = AList.update ''debt'' r (reasoning b)"
  using assms by (cases v; auto simp add: present_def debt_analysis_def Let_def)+

lemma revenue_growth_analysis_present:
  assumes "present v"
  shows "max_score (revenue_growth_analysis v b) = max_score b + 3"
    and "score b \<le> score (revenue_growth_analysis v b)"
    and "score (revenue_growth_analysis v b) \<le> score b + 3"
    and "\<exists>r. reasoning (revenue_growth_analysis v b)
           = AList.update ''revenue_growth'' r (reasoning b)"
  using assms by (cases v; auto simp add: present_def revenue_growth_analysis_def Let_def)+

lemma earnings_growth_analysis_present:
  assumes "present v"
  shows "max_score (earnings_growth_analysis v b) = max_score b + 2"
    and "score b \<le> score (earnings_growth_analysis v b)"
    and "score (earnings_growth_analysis v b) \<le> score b + 2"
    and "\<exists>r. reasoning (earnings_growth_analysis v b)
           = AList.update ''earnings_growth'' r (reasoning b)"
  using assms by (cases v; auto simp add: present_def earnings_growth_analysis_def Let_def)+

lemma roe_analysis_in_range: "score_in_range b \<Longrightarrow> score_in_range (roe_analysis v b)"
  using roe_analysis_skip [of v b] roe_analysis_present(1,2,3) [of v b]
  by (cases "present v") (auto simp add: score_in_range_def)

lemma debt_analysis_in_range: "score_in_range b \<Longrightarrow> score_in_range (debt_analysis v b)"
  using debt_analysis_skip [of v b] debt_analysis_present(1,2,3) [of v b]
  by (cases "present v") (auto simp add: score_in_range_def)

lemma revenue_growth_analysis_in_range: "score_in_range b \<Longrightarrow> score_in_range (revenue_growth_analysis v b)"
  using revenue_growth_analysis_skip [of v b] revenue_growth_analysis_present(1,2,3) [of v b]
  by (cases "present v") (auto simp add: score_in_range_def)

lemma earnings_growth_analysis_in_range: "score_in_range b \<Longrightarrow> score_in_range (earnings_growth_analysis v b)"
  using earnings_growth_analysis_skip [of v b] earnings_growth_analysis_present(1,2,3) [of v b]
  by (cases "present v") (auto simp add: score_in_range_def)

lemma empty_breakdown_in_range: "score_in_range empty_breakdown"
  by (simp add: score_in_range_def empty_breakdown_def)

lemma analyze_core_metrics_in_range: "score_in_range (analyze_core_metrics metrics li)"
  unfolding analyze_core_metrics_def
  by (simp add: empty_breakdown_in_range roe_analysis_in_range debt_analysis_in_range
      split: option.splits list.splits)

lemma perform_advanced_analysis_in_range: "score_in_range (perform_advanced_analysis metrics li)"
  unfolding perform_advanced_analysis_def
  by (simp add: empty_breakdown_in_range revenue_growth_analysis_in_range
      earnings_growth_analysis_in_range split: option.splits list.splits)


section \<open>Properties of the scoring pipeline\<close>



text \<open>
  C9. The classifier returns the same signal, confidence and reasoning for any two values
  of \<open>market_cap\<close>.
\<close>

theorem generate_signal_ignores_market_cap:
  "generate_signal fmt c cap1 = generate_signal fmt c cap2"
  by (simp add: generate_signal_def)

text \<open>Division by zero raises; the guard of the aggregator is what prevents it.\<close>

lemma int_truediv_by_zero: "int_truediv a 0 = Inl ZeroDivisionError"
  by (simp add: int_truediv_def)

lemma int_truediv_nonzero: "b \<noteq> 0 \<Longrightarrow> int_truediv a b \<noteq> Inl ZeroDivisionError"
  by (simp add: int_truediv_def split: pyfloat.splits)

text \<open>The percentages of all scores \<open>0 \<le> t \<le> m\<close> with \<open>1 \<le> m \<le> 10\<close>, computed one by one.\<close>

lemma percentage_close_table:
  "list_all (\<lambda>m. list_all (\<lambda>t. percentage_close t m) [0..m]) [1..10]"
  by code_simp

lemma percentage_close_small:
  assumes "1 \<le> m" "m \<le> 10" "0 \<le> t" "t \<le> m"
  shows "percentage_close t m"
proof -
  from assms have "m \<in> set [1..10]" and "t \<in> set [0..m]" by simp_all
  with percentage_close_table show ?thesis by (simp add: list_all_iff)
qed

text \<open>The scorers stay within the weights of their rubrics.\<close>

lemma roe_analysis_max_score_le: "max_score (roe_analysis v b) \<le> max_score b + 3"
  using roe_analysis_skip [of v b] roe_analysis_present(1) [of v b]
  by (cases "present v") simp_all

lemma debt_analysis_max_score_le: "max_score (debt_analysis v b) \<le> max_score b + 2"
  using debt_analysis_skip [of v b] debt_analysis_present(1) [of v b]
  by (cases "present v") simp_all

lemma revenue_growth_analysis_max_score_le:
  "max_score (revenue_growth_analysis v b) \<le> max_score b + 3"
  using revenue_growth_analysis_skip [of v b] revenue_growth_analysis_present(1) [of v b]
  by (cases "present v") simp_all

lemma earnings_growth_analysis_max_score_le:
  "max_score (earnings_growth_analysis v b) \<le> max_score b + 2"
  using earnings_growth_analysis_skip [of v b] earnings_growth_analysis_present(1) [of v b]
  by (cases "present v") simp_all

lemma analyze_core_metrics_max_score_le: "max_score (analyze_core_metrics metrics li) \<le> 5"
proof -
  have "max_score (debt_analysis d (roe_analysis r empty_breakdown)) \<le> 5" for d r
    using debt_analysis_max_score_le [of d "roe_analysis r empty_breakdown"]
      roe_analysis_max_score_le [of r empty_breakdown]
    by (simp add: empty_breakdown_def)
  then show ?thesis
    by (simp add: analyze_core_metrics_def empty_breakdown_def split: option.splits list.splits)
qed

lemma perform_advanced_analysis_max_score_le:
  "max_score (perform_advanced_analysis metrics li) \<le> 5"
proof -
  have "max_score (earnings_growth_analysis g (revenue_growth_analysis r empty_breakdown)) \<le> 5"
    for g r
    using earnings_growth_analysis_max_score_le [of g "revenue_growth_analysis r empty_breakdown"]
      revenue_growth_analysis_max_score_le [of r empty_breakdown]
    by (simp add: empty_breakdown_def)
  then show ?thesis
    by (simp add: perform_advanced_analysis_def empty_breakdown_def
        split: option.splits list.splits)
qed

text \<open>
  C5, as the specification states it, would make the result equal to
  \<open>100 * total / max\<close>. With a score of 1 out of 3 the code computes \<open>(1 / 3) * 100\<close>, the
  double 33.33333333333333, which is neither the number \<open>100/3\<close> nor the double that the
  expression \<open>100 * 1 / 3\<close> gives, 33.333333333333336.
\<close>

theorem calculate_comprehensive_score_formula_counterexample:
  "calculate_comprehensive_score
     \<lparr>score = 1, max_score = 3, reasoning = [(''roe'', ROE_moderate)]\<rparr> empty_breakdown
     = Inr (Fin (2345624805922133 / 70368744177664))
   \<and> (2345624805922133 / 70368744177664 :: rat) \<noteq> 100 * of_int (1 + 0) / of_int (3 + 0)
   \<and> int_truediv (100 * (1 + 0)) (3 + 0) = Inr (Fin (4691249611844267 / 140737488355328))
   \<and> (2345624805922133 / 70368744177664 :: rat) \<noteq> 4691249611844267 / 140737488355328"
proof -
  have q: "int_truediv 1 3 = Inr (Fin (6004799503160661 / 18014398509481984))"
    by code_simp
  have p: "float_mul (Fin (6004799503160661 / 18014398509481984)) (Fin 100)
      = Fin (2345624805922133 / 70368744177664)"
    by code_simp
  have d: "int_truediv 100 3 = Inr (Fin (4691249611844267 / 140737488355328))"
    by code_simp
  show ?thesis
    by (simp add: calculate_comprehensive_score_def empty_breakdown_def q p d)
qed

text \<open>
  C5, amended. The aggregator returns exactly 0 when the two maxima sum to zero, without
  dividing. Otherwise it returns the float expression \<open>(total / max) * 100\<close>: the ratio of
  the two integers rounded to a double, multiplied by 100 and rounded again; this never
  raises \<open>ZeroDivisionError\<close>. For breakdowns in the range of the rubrics
  (\<open>0 \<le> score \<le> max_score \<le> 5\<close> each) the result is a finite float between 0 and 100 and
  within \<open>2^-46\<close> of \<open>100 * total / max\<close>. The result is a function of the two breakdowns.
\<close>

theorem calculate_comprehensive_score_rounded:
  "(max_score core + max_score adv = 0 \<longrightarrow>
      calculate_comprehensive_score core adv = Inr (Fin 0))
   \<and> (max_score core + max_score adv \<noteq> 0 \<longrightarrow>
        calculate_comprehensive_score core adv \<noteq> Inl ZeroDivisionError
        \<and> calculate_comprehensive_score core adv
          = (case int_truediv (score core + score adv) (max_score core + max_score adv) of
               Inl e \<Rightarrow> Inl e
             | Inr ratio \<Rightarrow> Inr (float_mul ratio (Fin 100))))
   \<and> (max_score core + max_score adv \<noteq> 0 \<and> score_in_range core \<and> score_in_range adv
       \<and> max_score core \<le> 5 \<and> max_score adv \<le> 5 \<longrightarrow>
        (\<exists>r. calculate_comprehensive_score core adv = Inr (Fin r) \<and> 0 \<le> r \<and> r \<le> 100
           \<and> \<bar>r - 100 * of_int (score core + score adv)
                  / of_int (max_score core + max_score adv)\<bar> \<le> 1 / 2 ^ 46))"
proof (intro conjI impI)
  assume "max_score core + max_score adv = 0"
  then show "calculate_comprehensive_score core adv = Inr (Fin 0)"
    by (simp add: calculate_comprehensive_score_def)
next
  assume m: "max_score core + max_score adv \<noteq> 0"
  show eq: "calculate_comprehensive_score core adv
      = (case int_truediv (score core + score adv) (max_score core + max_score adv) of
           Inl e \<Rightarrow> Inl e
         | Inr ratio \<Rightarrow> Inr (float_mul ratio (Fin 100)))"
    using m by (simp add: calculate_comprehensive_score_def Let_def)
  show "calculate_comprehensive_score core adv \<noteq> Inl ZeroDivisionError"
    using int_truediv_nonzero [OF m, of "score core + score adv"]
    by (auto simp add: eq split: sum.splits)
next
  let ?t = "score core + score adv" and ?m = "max_score core + max_score adv"
  assume a: "?m \<noteq> 0 \<and> score_in_range core \<and> score_in_range adv
       \<and> max_score core \<le> 5 \<and> max_score adv \<le> 5"
  then have "1 \<le> ?m" "?m \<le> 10" "0 \<le> ?t" "?t \<le> ?m"
    by (auto simp add: score_in_range_def)
  then have "percentage_close ?t ?m" by (rule percentage_close_small)
  then show "\<exists>r. calculate_comprehensive_score core adv = Inr (Fin r) \<and> 0 \<le> r \<and> r \<le> 100
           \<and> \<bar>r - 100 * of_int ?t / of_int ?m\<bar> \<le> 1 / 2 ^ 46"
    using a
    by (auto simp add: percentage_close_def calculate_comprehensive_score_def Let_def
        split: sum.splits pyfloat.splits)
qed

theorem calculate_comprehensive_score_rounded_witness:
  "calculate_comprehensive_score empty_breakdown empty_breakdown = Inr (Fin 0)
   \<and> calculate_comprehensive_score
        \<lparr>score = 4, max_score = 5, reasoning = []\<rparr> \<lparr>score = 2, max_score = 3, reasoning = []\<rparr>
       \<noteq> Inl ZeroDivisionError
   \<and> (\<exists>r. calculate_comprehensive_score
        \<lparr>score = 4, max_score = 5, reasoning = []\<rparr> \<lparr>score = 2, max_score = 3, reasoning = []\<rparr>
         = Inr (Fin r) \<and> 0 \<le> r \<and> r \<le> 100 \<and> \<bar>r - 75\<bar> \<le> 1 / 2 ^ 46)"
proof -
  let ?core = "\<lparr>score = 4, max_score = 5, reasoning = []\<rparr>"
  let ?adv = "\<lparr>score = 2, max_score = 3, reasoning = []\<rparr>"
  have zero: "calculate_comprehensive_score empty_breakdown empty_breakdown = Inr (Fin 0)"
    using calculate_comprehensive_score_rounded [of empty_breakdown empty_breakdown]
    by (simp add: empty_breakdown_def)
  have no_error: "calculate_comprehensive_score ?core ?adv \<noteq> Inl ZeroDivisionError"
    by (rule calculate_comprehensive_score_rounded
          [of ?core ?adv, THEN conjunct2, THEN conjunct1, rule_format, THEN conjunct1])
      simp
  have close: "\<exists>r. calculate_comprehensive_score ?core ?adv = Inr (Fin r)
      \<and> 0 \<le> r \<and> r \<le> 100 \<and> \<bar>r - 75\<bar> \<le> 1 / 2 ^ 46"
    using calculate_comprehensive_score_rounded [of ?core ?adv, THEN conjunct2, THEN conjunct2]
    by (simp add: score_in_range_def)
  from zero no_error close show ?thesis by blast
qed

text \<open>
  C6. On \<open>None\<close> and on a snapshot list of length less than 2 the advanced scorer returns
  the empty breakdown: score 0, maximum 0, no reasoning entry.
\<close>

theorem perform_advanced_analysis_short:
  "(case metrics of None \<Rightarrow> True | Some ms \<Rightarrow> length ms < 2) \<Longrightarrow>
   perform_advanced_analysis metrics li = \<lparr>score = 0, max_score = 0, reasoning = []\<rparr>"
  by (auto simp add: perform_advanced_analysis_def empty_breakdown_def
      split: option.splits list.splits)

theorem perform_advanced_analysis_short_witness:
  "perform_advanced_analysis None () = \<lparr>score = 0, max_score = 0, reasoning = []\<rparr>
   \<and> perform_advanced_analysis (Some []) () = \<lparr>score = 0, max_score = 0, reasoning = []\<rparr>
   \<and> perform_advanced_analysis
        (Some [\<lparr>return_on_equity = Some (Fin 0.18), debt_to_equity = Some (Fin 0.25),
                revenue_growth = Some (Fin 0.3), earnings_growth = Some (Fin 0.3)\<rparr>]) ()
       = \<lparr>score = 0, max_score = 0, reasoning = []\<rparr>"
  using perform_advanced_analysis_short [of None "()"]
    perform_advanced_analysis_short [of "Some []" "()"]
    perform_advanced_analysis_short
      [of "Some [\<lparr>return_on_equity = Some (Fin 0.18), debt_to_equity = Some (Fin 0.25),
                  revenue_growth = Some (Fin 0.3), earnings_growth = Some (Fin 0.3)\<rparr>]" "()"]
  by simp

text \<open>
  C8. Every breakdown returned by the core scorer and by the advanced scorer has
  \<open>0 \<le> score \<le> max_score\<close>.
\<close>

theorem breakdown_invariant:
  "0 \<le> score (analyze_core_metrics metrics li)
   \<and> score (analyze_core_metrics metrics li) \<le> max_score (analyze_core_metrics metrics li)
   \<and> 0 \<le> score (perform_advanced_analysis metrics li)
   \<and> score (perform_advanced_analysis metrics li)
       \<le> max_score (perform_advanced_analysis metrics li)"
  using analyze_core_metrics_in_range [of metrics li]
    perform_advanced_analysis_in_range [of metrics li]
  by (simp add: score_in_range_def)

text \<open>
  C10. On two snapshot lists of length at least 2 whose first snapshots have the same
  \<open>revenue_growth\<close> and the same \<open>earnings_growth\<close>, the advanced scorer returns the same
  breakdown, whatever the other fields, the later snapshots and the line items are.
\<close>

theorem perform_advanced_analysis_reads_current_growth:
  "2 \<le> length ms \<Longrightarrow> 2 \<le> length ms' \<Longrightarrow>
   revenue_growth (ms ! 0) = revenue_growth (ms' ! 0) \<Longrightarrow>
   earnings_growth (ms ! 0) = earnings_growth (ms' ! 0) \<Longrightarrow>
   perform_advanced_analysis (Some ms) li = perform_advanced_analysis (Some ms') li'"
  by (auto simp add: perform_advanced_analysis_def split: list.splits)

theorem perform_advanced_analysis_reads_current_growth_witness:
  "perform_advanced_analysis
     (Some [\<lparr>return_on_equity = Some (Fin 0.18), debt_to_equity = None,
              revenue_growth = Some (Fin 0.12), earnings_growth = Some (Fin 0.3)\<rparr>,
            \<lparr>return_on_equity = None, debt_to_equity = None,
              revenue_growth = Some (Fin 0.5), earnings_growth = None\<rparr>]) ()
   = perform_advanced_analysis
     (Some [\<lparr>return_on_equity = None, debt_to_equity = Some (Fin 2),
              revenue_growth = Some (Fin 0.12), earnings_growth = Some (Fin 0.3)\<rparr>,
            \<lparr>return_on_equity = Some NaN, debt_to_equity = Some (Fin 0.1),
              revenue_growth = None, earnings_growth = Some (Fin (- 1))\<rparr>,
            \<lparr>return_on_equity = None, debt_to_equity = None,
              revenue_growth = None, earnings_growth = None\<rparr>]) ()"
  using perform_advanced_analysis_reads_current_growth
    [of "[\<lparr>return_on_equity = Some (Fin 0.18), debt_to_equity = None,
              revenue_growth = Some (Fin 0.12), earnings_growth = Some (Fin 0.3)\<rparr>,
            \<lparr>return_on_equity = None, debt_to_equity = None,
              revenue_growth = Some (Fin 0.5), earnings_growth = None\<rparr>]"
        "[\<lparr>return_on_equity = None, debt_to_equity = Some (Fin 2),
              revenue_growth = Some (Fin 0.12), earnings_growth = Some (Fin 0.3)\<rparr>,
            \<lparr>return_on_equity = Some NaN, debt_to_equity = Some (Fin 0.1),
              revenue_growth = None, earnings_growth = Some (Fin (- 1))\<rparr>,
            \<lparr>return_on_equity = None, debt_to_equity = None,
              revenue_growth = None, earnings_growth = None\<rparr>]" "()" "()"]
  by simp

lemma core_max_score:
  "max_score (analyze_core_metrics (Some (latest # rest)) li)
     = (if present (return_on_equity latest) then 3 else 0)
       + (if present (debt_to_equity latest) then 2 else 0)"
  by (simp add: analyze_core_metrics_def roe_analysis_skip debt_analysis_skip
      roe_analysis_present(1) debt_analysis_present(1) empty_breakdown_def)

lemma core_keys:
  "map fst (reasoning (analyze_core_metrics (Some (latest # rest)) li))
     = (if present (return_on_equity latest) then [''roe''] else [])
       @ (if present (debt_to_equity latest) then [''debt''] else [])"
proof -
  let ?r = "roe_analysis (return_on_equity latest) empty_breakdown"
  have r: "map fst (reasoning ?r) = (if present (return_on_equity latest) then [''roe''] else [])"
    using roe_analysis_present(4) [of "return_on_equity latest" empty_breakdown]
    by (auto simp add: roe_analysis_skip empty_breakdown_def)
  have "map fst (reasoning (debt_analysis (debt_to_equity latest) ?r))
      = map fst (reasoning ?r) @ (if present (debt_to_equity latest) then [''debt''] else [])"
    using debt_analysis_present(4) [of "debt_to_equity latest" ?r] r
    by (auto simp add: debt_analysis_skip AList.update_keys split: if_splits)
  with r show ?thesis by (simp add: analyze_core_metrics_def)
qed

lemma advanced_max_score:
  "max_score (perform_advanced_analysis (Some (current # previous # rest)) li)
     = (if present (revenue_growth current) then 3 else 0)
       + (if present (earnings_growth current) then 2 else 0)"
  by (simp add: perform_advanced_analysis_def revenue_growth_analysis_skip
      earnings_growth_analysis_skip revenue_growth_analysis_present(1)
      earnings_growth_analysis_present(1) empty_breakdown_def)

lemma advanced_keys:
  "map fst (reasoning (perform_advanced_analysis (Some (current # previous # rest)) li))
     = (if present (revenue_growth current) then [''revenue_growth''] else [])
       @ (if present (earnings_growth current) then [''earnings_growth''] else [])"
proof -
  let ?r = "revenue_growth_analysis (revenue_growth current) empty_breakdown"
  have r: "map fst (reasoning ?r)
      = (if present (revenue_growth current) then [''revenue_growth''] else [])"
    using revenue_growth_analysis_present(4) [of "revenue_growth current" empty_breakdown]
    by (auto simp add: revenue_growth_analysis_skip empty_breakdown_def)
  have "map fst (reasoning (earnings_growth_analysis (earnings_growth current) ?r))
      = map fst (reasoning ?r)
        @ (if present (earnings_growth current) then [''earnings_growth''] else [])"
    using earnings_growth_analysis_present(4) [of "earnings_growth current" ?r] r
    by (auto simp add: earnings_growth_analysis_skip AList.update_keys split: if_splits)
  with r show ?thesis by (simp add: perform_advanced_analysis_def)
qed

lemma core_example:
  "max_score (analyze_core_metrics
     (Some [\<lparr>return_on_equity = None, debt_to_equity = Some (Fin 0.2),
              revenue_growth = rg, earnings_growth = eg\<rparr>]) li) = 2"
  by (simp add: core_max_score present_def)

text \<open>
  C3. A field that is \<open>None\<close> or zero leaves the breakdown as it was: score, maximum and
  reasoning are unchanged. A field with any other value raises the maximum by the full
  weight of its rubric (3, 2, 3, 2) and assigns one text to its key, whatever tier it
  reaches. So the maximum of a breakdown is the sum of the weights of the fields that
  are set, and its reasoning has one entry for each of them; a snapshot with
  \<open>return_on_equity = None\<close> and \<open>debt_to_equity = 0.2\<close> has a core maximum of 2.
\<close>

theorem falsy_field_skipped:
  "(\<not> present v \<longrightarrow>
      roe_analysis v b = b \<and> debt_analysis v b = b
      \<and> revenue_growth_analysis v b = b \<and> earnings_growth_analysis v b = b)
   \<and> (present v \<longrightarrow>
        max_score (roe_analysis v b) = max_score b + 3
      \<and> (\<exists>r. reasoning (roe_analysis v b) = AList.update ''roe'' r (reasoning b))
      \<and> max_score (debt_analysis v b) = max_score b + 2
      \<and> (\<exists>r. reasoning (debt_analysis v b) = AList.update ''debt'' r (reasoning b))
      \<and> max_score (revenue_growth_analysis v b) = max_score b + 3
      \<and> (\<exists>r. reasoning (revenue_growth_analysis v b)
               = AList.update ''revenue_growth'' r (reasoning b))
      \<and> max_score (earnings_growth_analysis v b) = max_score b + 2
      \<and> (\<exists>r. reasoning (earnings_growth_analysis v b)
               = AList.update ''earnings_growth'' r (reasoning b)))
   \<and> max_score (analyze_core_metrics (Some (latest # rest)) li)
       = (if present (return_on_equity latest) then 3 else 0)
         + (if present (debt_to_equity latest) then 2 else 0)
   \<and> map fst (reasoning (analyze_core_metrics (Some (latest # rest)) li))
       = (if present (return_on_equity latest) then [''roe''] else [])
         @ (if present (debt_to_equity latest) then [''debt''] else [])
   \<and> max_score (perform_advanced_analysis (Some (latest # previous # rest)) li)
       = (if present (revenue_growth latest) then 3 else 0)
         + (if present (earnings_growth latest) then 2 else 0)
   \<and> map fst (reasoning (perform_advanced_analysis (Some (latest # previous # rest)) li))
       = (if present (revenue_growth latest) then [''revenue_growth''] else [])
         @ (if present (earnings_growth latest) then [''earnings_growth''] else [])
   \<and> max_score (analyze_core_metrics
        (Some [\<lparr>return_on_equity = None, debt_to_equity = Some (Fin 0.2),
                 revenue_growth = rg, earnings_growth = eg\<rparr>]) li) = 2"
proof -
  have skip: "\<not> present v \<longrightarrow>
      roe_analysis v b = b \<and> debt_analysis v b = b
      \<and> revenue_growth_analysis v b = b \<and> earnings_growth_analysis v b = b"
    by (simp add: roe_analysis_skip debt_analysis_skip revenue_growth_analysis_skip
        earnings_growth_analysis_skip)
  have pres: "present v \<longrightarrow>
        max_score (roe_analysis v b) = max_score b + 3
      \<and> (\<exists>r. reasoning (roe_analysis v b) = AList.update ''roe'' r (reasoning b))
      \<and> max_score (debt_analysis v b) = max_score b + 2
      \<and> (\<exists>r. reasoning (debt_analysis v b) = AList.update ''debt'' r (reasoning b))
      \<and> max_score (revenue_growth_analysis v b) = max_score b + 3
      \<and> (\<exists>r. reasoning (revenue_growth_analysis v b)
               = AList.update ''revenue_growth'' r (reasoning b))
      \<and> max_score (earnings_growth_analysis v b) = max_score b + 2
      \<and> (\<exists>r. reasoning (earnings_growth_analysis v b)
               = AList.update ''earnings_growth'' r (reasoning b))"
    using roe_analysis_present(1,4) [of v b] debt_analysis_present(1,4) [of v b]
      revenue_growth_analysis_present(1,4) [of v b]
      earnings_growth_analysis_present(1,4) [of v b]
    by blast
  show ?thesis
    using skip pres core_max_score [of latest rest li] core_keys [of latest rest li]
      advanced_max_score [of latest previous rest li] advanced_keys [of latest previous rest li]
      core_example [of rg eg li]
    by blast
qed

theorem falsy_field_skipped_witness:
  "roe_analysis (Some (Fin 0)) empty_breakdown = empty_breakdown
   \<and> debt_analysis None empty_breakdown = empty_breakdown
   \<and> max_score (debt_analysis (Some (Fin 0.2)) empty_breakdown) = 2
   \<and> max_score (roe_analysis (Some (Fin 0.01)) empty_breakdown) = 3
   \<and> map fst (reasoning (analyze_core_metrics
        (Some [\<lparr>return_on_equity = None, debt_to_equity = Some (Fin 0.2),
                 revenue_growth = None, earnings_growth = None\<rparr>]) ())) = [''debt'']
   \<and> max_score (analyze_core_metrics
        (Some [\<lparr>return_on_equity = None, debt_to_equity = Some (Fin 0.2),
                 revenue_growth = None, earnings_growth = None\<rparr>]) ()) = 2"
  using falsy_field_skipped [where v = "Some (Fin 0)" and b = empty_breakdown
      and latest = "\<lparr>return_on_equity = None, debt_to_equity = Some (Fin 0.2),
                 revenue_growth = None, earnings_growth = None\<rparr>" and rest = "[]" and li = "()"
      and previous = "\<lparr>return_on_equity = None, debt_to_equity = None,
                 revenue_growth = None, earnings_growth = None\<rparr>" and rg = None and eg = None]
    falsy_field_skipped [where v = None and b = empty_breakdown
      and latest = "\<lparr>return_on_equity = None, debt_to_equity = Some (Fin 0.2),
                 revenue_growth = None, earnings_growth = None\<rparr>" and rest = "[]" and li = "()"
      and previous = "\<lparr>return_on_equity = None, debt_to_equity = None,
                 revenue_growth = None, earnings_growth = None\<rparr>" and rg = None and eg = None]
    falsy_field_skipped [where v = "Some (Fin 0.2)" and b = empty_breakdown
      and latest = "\<lparr>return_on_equity = None, debt_to_equity = Some (Fin 0.2),
                 revenue_growth = None, earnings_growth = None\<rparr>" and rest = "[]" and li = "()"
      and previous = "\<lparr>return_on_equity = None, debt_to_equity = None,
                 revenue_growth = None, earnings_growth = None\<rparr>" and rg = None and eg = None]
    falsy_field_skipped [where v = "Some (Fin 0.01)" and b = empty_breakdown
      and latest = "\<lparr>return_on_equity = None, debt_to_equity = Some (Fin 0.2),
                 revenue_growth = None, earnings_growth = None\<rparr>" and rest = "[]" and li = "()"
      and previous = "\<lparr>return_on_equity = None, debt_to_equity = None,
                 revenue_growth = None, earnings_growth = None\<rparr>" and rg = None and eg = None]
  by (simp add: present_def empty_breakdown_def)

section \<open>Properties of the review step\<close>

text \<open>
  C2. Once the prompt is built and the signals are serialised: when the call to the model
  raises an error, and when the call returns a text on which \<open>json.loads\<close> raises an
  error, the reviewer returns the signals it was given; the result is a value, not a raised
  exception. An error is an instance of \<open>Exception\<close>.
\<close>

theorem validate_with_llm_falls_back:
  "(from_messages ext = Inr prompt \<and> json_dumps ext signals = Inr data
      \<and> call_llm ext prompt data state agent_id = Inl (Err msg)
      \<longrightarrow> validate_with_llm ext signals state agent_id = Inr signals)
   \<and> (from_messages ext = Inr prompt \<and> json_dumps ext signals = Inr data
       \<and> call_llm ext prompt data state agent_id = Inr text
       \<and> json_loads ext text = Inl (Err msg)
      \<longrightarrow> validate_with_llm ext signals state agent_id = Inr signals)"
  by (simp add: validate_with_llm_def)

theorem validate_with_llm_falls_back_witness:
  "validate_with_llm (reviewer_raising (Err ''timeout'')) signals_AAPL () ''example_agent''
     = Inr signals_AAPL
   \<and> validate_with_llm (reviewer_answering ''Sorry, I cannot help.'' (Inl (Err ''JSONDecodeError'')))
       signals_AAPL () ''example_agent'' = Inr signals_AAPL"
  using validate_with_llm_falls_back
      [of "reviewer_raising (Err ''timeout'')" "()" signals_AAPL "''{}''" "()" "''example_agent''"
          "''timeout''"]
    validate_with_llm_falls_back
      [of "reviewer_answering ''Sorry, I cannot help.'' (Inl (Err ''JSONDecodeError''))" "()"
          signals_AAPL "''{}''" "()" "''example_agent''" "''JSONDecodeError''"
          "''Sorry, I cannot help.''"]
  by (simp add: reviewer_raising_def reviewer_answering_def)

text \<open>
  C4, as the specification states it, would have the reviewer return the signals it was
  given whenever the parsed response lacks the expected shape. With the prompt built and
  the signals serialised, the response \<open>[]\<close> parses to the empty list, which is not a
  mapping from tickers to signal objects, and the reviewer returns that list.
\<close>

theorem malformed_review_counterexample:
  "from_messages (reviewer_answering ''[]'' (Inr (JArr []))) = Inr ()
   \<and> json_dumps (reviewer_answering ''[]'' (Inr (JArr []))) signals_AAPL = Inr ''{}''
   \<and> call_llm (reviewer_answering ''[]'' (Inr (JArr []))) () ''{}'' () ''example_agent''
       = Inr ''[]''
   \<and> json_loads (reviewer_answering ''[]'' (Inr (JArr []))) ''[]'' = Inr (JArr [])
   \<and> \<not> expected_shape (JArr [])
   \<and> validate_with_llm (reviewer_answering ''[]'' (Inr (JArr []))) signals_AAPL ()
        ''example_agent'' = Inr (JArr [])
   \<and> validate_with_llm (reviewer_answering ''[]'' (Inr (JArr []))) signals_AAPL ()
        ''example_agent'' \<noteq> Inr signals_AAPL"
  by (simp add: validate_with_llm_def reviewer_answering_def signals_AAPL_def)

text \<open>
  C4, amended. Once the prompt is built and the signals are serialised, a response whose
  text \<open>json.loads\<close> parses is not treated as a failure: the reviewer returns the parsed
  value as the final result, whatever its shape.
\<close>

theorem validate_with_llm_returns_parsed:
  "from_messages ext = Inr prompt \<Longrightarrow> json_dumps ext signals = Inr data \<Longrightarrow>
   call_llm ext prompt data state agent_id = Inr text \<Longrightarrow>
   json_loads ext text = Inr parsed \<Longrightarrow>
   validate_with_llm ext signals state agent_id = Inr parsed"
  by (simp add: validate_with_llm_def)

theorem validate_with_llm_returns_parsed_witness:
  "validate_with_llm (reviewer_answering ''null'' (Inr JNull)) signals_AAPL () ''example_agent''
     = Inr JNull"
  using validate_with_llm_returns_parsed
      [of "reviewer_answering ''null'' (Inr JNull)" "()" signals_AAPL "''{}''" "()"
          "''example_agent''" "''null''" JNull]
  by (simp add: reviewer_answering_def)

text \<open>
  The other paths of the function. What the construction of the prompt raises reaches the
  caller, an error included, since line 237 is outside the \<open>try\<close>. An error of the
  serialisation of the signals is caught like one of the call. What is raised outside the
  class \<open>Exception\<close> is not caught by the handler.
\<close>

lemma validate_with_llm_prompt_failure:
  "from_messages ext = Inl e \<Longrightarrow> validate_with_llm ext signals state agent_id = Inl e"
  by (simp add: validate_with_llm_def)

lemma validate_with_llm_dumps_failure:
  "from_messages ext = Inr prompt \<Longrightarrow> json_dumps ext signals = Inl (Err msg) \<Longrightarrow>
   validate_with_llm ext signals state agent_id = Inr signals"
  by (simp add: validate_with_llm_def)

lemma validate_with_llm_passes_non_errors:
  "from_messages ext = Inr prompt \<Longrightarrow> json_dumps ext signals = Inr data \<Longrightarrow>
   call_llm ext prompt data state agent_id = Inl (NonErr msg) \<Longrightarrow>
   validate_with_llm ext signals state agent_id = Inl (NonErr msg)"
  by (simp add: validate_with_llm_def)

section \<open>Properties of the catalog filter\<close>

lemma PROVIDER_TO_API_KEY_nonempty:
  "map_of PROVIDER_TO_API_KEY p = Some name \<Longrightarrow> name \<noteq> []"
  by (auto simp add: PROVIDER_TO_API_KEY_def split: if_splits)

lemma filter_cloud_models_filter:
  "filter_cloud_models A all_models filtered_models
     = filtered_models @ filter (has_credential A) all_models"
proof (induction all_models arbitrary: filtered_models)
  case Nil
  show ?case by simp
next
  case (Cons model all_models)
  show ?case
  proof (cases "map_of PROVIDER_TO_API_KEY (model_provider model)")
    case None
    then show ?thesis by (simp add: Cons.IH has_credential_def)
  next
    case (Some name)
    then have "name \<noteq> []" by (rule PROVIDER_TO_API_KEY_nonempty)
    with Some show ?thesis by (simp add: Cons.IH has_credential_def)
  qed
qed

text \<open>
  C7. When the three calls succeed, the route returns the catalog entries that have a
  credential, in catalog order, followed by the probed local models, which are not
  filtered. An entry whose provider has no row in the table is not among the entries the
  loop keeps.
\<close>

theorem get_language_models_filters_by_credential:
  "get_language_models (Inr api_keys) (Inr catalog) (Inr ollama_models)
     = Inr (filter (has_credential (set (map provider api_keys))) catalog @ ollama_models)
   \<and> (map_of PROVIDER_TO_API_KEY (model_provider m) = None
        \<longrightarrow> m \<notin> set (filter_cloud_models (set (map provider api_keys)) catalog []))"
  by (simp add: get_language_models_def filter_cloud_models_filter has_credential_def)

theorem get_language_models_filters_by_credential_witness:
  "get_language_models (Inr [\<lparr>provider = ''OPENAI_API_KEY''\<rparr>])
     (Inr [[(''display_name'', ''GPT-4o''), (''model_name'', ''gpt-4o''), (''provider'', ''OpenAI'')],
           [(''display_name'', ''Llama 3''), (''model_name'', ''llama3-70b''), (''provider'', ''Groq'')],
           [(''display_name'', ''Mistral''), (''model_name'', ''mistral''), (''provider'', ''OPENAI_API_KEY'')]])
     (Inr [[(''display_name'', ''Qwen''), (''model_name'', ''qwen3''), (''provider'', ''Ollama'')]])
   = Inr [[(''display_name'', ''GPT-4o''), (''model_name'', ''gpt-4o''), (''provider'', ''OpenAI'')],
          [(''display_name'', ''Qwen''), (''model_name'', ''qwen3''), (''provider'', ''Ollama'')]]
   \<and> map_of PROVIDER_TO_API_KEY ''OPENAI_API_KEY'' = None
   \<and> [(''display_name'', ''Mistral''), (''model_name'', ''mistral''), (''provider'', ''OPENAI_API_KEY'')]
       \<notin> set (filter_cloud_models (set (map provider [\<lparr>provider = ''OPENAI_API_KEY''\<rparr>]))
           [[(''display_name'', ''GPT-4o''), (''model_name'', ''gpt-4o''), (''provider'', ''OpenAI'')],
            [(''display_name'', ''Llama 3''), (''model_name'', ''llama3-70b''), (''provider'', ''Groq'')],
            [(''display_name'', ''Mistral''), (''model_name'', ''mistral''), (''provider'', ''OPENAI_API_KEY'')]]
           [])"
  using get_language_models_filters_by_credential
    [of "[\<lparr>provider = ''OPENAI_API_KEY''\<rparr>]"
        "[[(''display_name'', ''GPT-4o''), (''model_name'', ''gpt-4o''), (''provider'', ''OpenAI'')],
           [(''display_name'', ''Llama 3''), (''model_name'', ''llama3-70b''), (''provider'', ''Groq'')],
           [(''display_name'', ''Mistral''), (''model_name'', ''mistral''), (''provider'', ''OPENAI_API_KEY'')]]"
        "[[(''display_name'', ''Qwen''), (''model_name'', ''qwen3''), (''provider'', ''Ollama'')]]"
        "[(''display_name'', ''Mistral''), (''model_name'', ''mistral''), (''provider'', ''OPENAI_API_KEY'')]"]
  by (simp add: has_credential_def model_provider_def PROVIDER_TO_API_KEY_def)

end
